theory Spec2Isabelle
  imports Main "HOL-Library.Word"
begin

section \<open>The SSM data channel (datachannel/data\_channel.go)\<close>

text \<open>
  A shallow embedding of \<^verbatim>\<open>SsmDataChannel\<close>: the sequence counter, the
  initial-Syn flag, the handshake signal and the web socket are a record that every
  method takes and returns. The methods run one after another here; the mutex
  \<^verbatim>\<open>mu\<close> and the atomic operations are therefore not visible.
\<close>

subsection \<open>Bytes and slices\<close>

type_synonym byte = "8 word"
type_synonym bytes = "byte list"

text \<open>A Go \<^verbatim>\<open>[]byte\<close>: \<open>None\<close> is the nil slice, which \<^verbatim>\<open>WriteTo\<close> tells
  apart from an empty one.\<close>

type_synonym slice = "bytes option"

definition len :: "slice \<Rightarrow> nat" where
  "len s = (case s of None \<Rightarrow> 0 | Some bs \<Rightarrow> length bs)"

text \<open>\<^verbatim>\<open>binary.BigEndian.PutUint32\<close> on a fresh 4-byte buffer.\<close>

definition PutUint32 :: "32 word \<Rightarrow> bytes" where
  "PutUint32 v = [ucast (drop_bit 24 v), ucast (drop_bit 16 v), ucast (drop_bit 8 v), ucast v]"

subsection \<open>The envelope\<close>

text \<open>
  The enumerations are declared outside data\_channel.go. Their members are the ones the
  file names; \<open>OtherMessageType\<close> and \<open>OtherPayloadType\<close> stand for every value
  that the \<^verbatim>\<open>default\<close> branches of \<^verbatim>\<open>readMsg\<close> catch.
\<close>

datatype MessageType =
  InputStreamData | OutputStreamData | Acknowledge | ChannelClosed | OtherMessageType string

datatype PayloadType =
  Undefined | Output | Size | Flag | HandshakeRequest | HandshakeResponse | HandshakeComplete
  | OtherPayloadType "32 word"

datatype AgentMessageFlag = Data | Syn | Fin | Ack

text \<open>
  The fields of \<^verbatim>\<open>AgentMessage\<close> that data\_channel.go reads or writes. The
  sequence number is an \<^verbatim>\<open>int64\<close>: a 64-bit word, read as a signed number by
  \<open>sint\<close>.
\<close>

record AgentMessage =
  MessageType :: MessageType
  SequenceNumber :: "64 word"
  Flags :: AgentMessageFlag
  PayloadType :: PayloadType
  Payload :: slice
  messageId :: "128 word"
  payloadLength :: "32 word"

subsection \<open>Errors and panics\<close>

datatype error =
  EOF
  | Err string
  | UnknownIncomingMsgPayload AgentMessage
  | UnknownMessageType AgentMessage

text \<open>A call either returns or panics (closing a closed Go channel panics).\<close>

datatype 'a outcome = Panic string | Return (returned: 'a)

subsection \<open>Handshake payloads\<close>

text \<open>
  Modelled from the spec: the declarations of \<^verbatim>\<open>ActionType\<close> and
  \<^verbatim>\<open>ActionStatus\<close> are not in data\_channel.go. An action type is a string whose
  zero value is the empty string; an action status is \<open>Success\<close>, \<open>Failed\<close> or
  \<open>Unsupported\<close>, and its zero value \<open>ActionStatusUnset\<close> is none of them.
\<close>

type_synonym ActionType = string

definition SessionType :: ActionType where
  "SessionType = ''SessionType''"

datatype ActionStatus = ActionStatusUnset | Success | Failed | Unsupported

record RequestedClientAction =
  ActionType :: ActionType
  ActionParameters :: bytes

record ProcessedClientAction =
  ActionType :: ActionType
  ActionStatus :: ActionStatus
  Error :: string

record HandshakeResponsePayload =
  ClientVersion :: string
  ProcessedClientActions :: "ProcessedClientAction list"

text \<open>The value of \<^verbatim>\<open>new(ProcessedClientAction)\<close>: every field zero.\<close>

definition new_ProcessedClientAction :: ProcessedClientAction where
  "new_ProcessedClientAction =
     \<lparr>ProcessedClientAction.ActionType = '''', ActionStatus = ActionStatusUnset, Error = ''''\<rparr>"

text \<open>The body of the loop of \<^verbatim>\<open>buildHandshakeResponse\<close> for one requested action.\<close>

definition processed_action :: "RequestedClientAction \<Rightarrow> ProcessedClientAction" where
  "processed_action a =
     (let action = new_ProcessedClientAction
      in if RequestedClientAction.ActionType a = SessionType
         then action\<lparr>ProcessedClientAction.ActionType := RequestedClientAction.ActionType a,
                     ActionStatus := Success\<rparr>
         else action)"

text \<open>The loop \<^verbatim>\<open>for i, a := range actions\<close>, storing at index \<open>i\<close>.\<close>

fun range_actions ::
  "nat \<Rightarrow> RequestedClientAction list \<Rightarrow> ProcessedClientAction list \<Rightarrow> ProcessedClientAction list"
where
  "range_actions i [] res = res"
| "range_actions i (a # as) res = range_actions (Suc i) as (res[i := processed_action a])"

definition buildHandshakeResponse :: "RequestedClientAction list \<Rightarrow> HandshakeResponsePayload" where
  "buildHandshakeResponse actions =
     \<lparr>ClientVersion = ''0.0.1'',
      ProcessedClientActions =
        range_actions 0 actions (replicate (length actions) new_ProcessedClientAction)\<rparr>"

subsection \<open>The transport\<close>

text \<open>
  The web socket is a mock that follows a script. A received frame is identified with
  what \<^verbatim>\<open>UnmarshalBinary\<close> makes of its bytes, a sent frame with the envelope
  whose encoding was handed to \<^verbatim>\<open>WriteMessage\<close>; the byte layout itself is
  outside data\_channel.go.
\<close>

datatype frame = Malformed error | Encoded AgentMessage

definition UnmarshalBinary :: "frame \<Rightarrow> error + AgentMessage" where
  "UnmarshalBinary data = (case data of Malformed e \<Rightarrow> Inl e | Encoded m \<Rightarrow> Inr m)"

record Conn =
  incoming :: "(error + frame) list"
  write_results :: "error option list"
  outgoing :: "AgentMessage list"

text \<open>
  \<^verbatim>\<open>ReadMessage\<close> yields the next scripted result; a script that has run out
  reports a closed connection. \<^verbatim>\<open>WriteMessage\<close> records the frame it is handed
  and yields the next scripted result, success once the script has run out.
\<close>

definition ReadMessage :: "Conn \<Rightarrow> (error + frame) \<times> Conn" where
  "ReadMessage w =
     (case incoming w of
        [] \<Rightarrow> (Inl (Err ''use of closed network connection''), w)
      | r # rs \<Rightarrow> (r, w\<lparr>incoming := rs\<rparr>))"

definition WriteMessage :: "Conn \<Rightarrow> AgentMessage \<Rightarrow> error option \<times> Conn" where
  "WriteMessage w data =
     (case write_results w of
        [] \<Rightarrow> (None, w\<lparr>outgoing := outgoing w @ [data]\<rparr>)
      | r # rs \<Rightarrow> (r, w\<lparr>write_results := rs, outgoing := outgoing w @ [data]\<rparr>))"

subsection \<open>What the file takes from elsewhere\<close>

text \<open>The content of an acknowledgment, the map that \<^verbatim>\<open>SendAcknowledgeMessage\<close>
  hands to \<^verbatim>\<open>json.Marshal\<close>.\<close>

record AcknowledgeContent =
  AcknowledgedMessageType :: MessageType
  AcknowledgedMessageId :: "128 word"
  AcknowledgedMessageSequenceNumber :: "64 word"
  IsSequentialMessage :: bool

text \<open>
  The functions and constants that data\_channel.go calls and does not define are
  parameters: the envelope constructor (the argument counts the envelopes built so far and
  stands for the identifier generator and the clock), the validation that makes
  \<^verbatim>\<open>MarshalBinary\<close> fail, the JSON encoder and decoder at each type they are
  used at, and the two session-control values. The decoder of a handshake request yields
  its \<^verbatim>\<open>RequestedClientActions\<close>, the decoder of a closing notice its
  \<^verbatim>\<open>Output\<close>, a Go string and so a sequence of bytes.
\<close>

record env =
  NewAgentMessage :: "nat \<Rightarrow> AgentMessage"
  MarshalBinary_error :: "AgentMessage \<Rightarrow> error option"
  json_Unmarshal_HandshakeRequest :: "slice \<Rightarrow> error + RequestedClientAction list"
  json_Unmarshal_ChannelClosed :: "slice \<Rightarrow> error + bytes"
  json_Marshal_HandshakeResponse :: "HandshakeResponsePayload \<Rightarrow> error + bytes"
  json_Marshal_Acknowledge :: "AcknowledgeContent \<Rightarrow> error + bytes"
  json_Marshal_Size :: "32 word \<Rightarrow> 32 word \<Rightarrow> error + bytes"
  flag_TerminateSession :: "32 word"
  flag_DisconnectToPort :: "32 word"

text \<open>
  Modelled from the spec: \<^verbatim>\<open>MarshalBinary\<close> is not in data\_channel.go. It
  computes \<^verbatim>\<open>payloadLength\<close> from the current payload and fails when the envelope
  does not validate; the result is the envelope as it goes on the wire.
\<close>

definition MarshalBinary :: "env \<Rightarrow> AgentMessage \<Rightarrow> error + AgentMessage" where
  "MarshalBinary E msg =
     (let m = msg\<lparr>payloadLength := of_nat (len (Payload msg))\<rparr>
      in case MarshalBinary_error E m of Some e \<Rightarrow> Inl e | None \<Rightarrow> Inr m)"

subsection \<open>The channel\<close>

text \<open>The handshake signal \<^verbatim>\<open>chan bool\<close>: nil, made by \<^verbatim>\<open>Open\<close>, or
  closed. Nothing is ever sent on it.\<close>

datatype handshake_chan = ChanNil | ChanOpen | ChanClosed

text \<open>
  The struct, for a channel whose web socket \<^verbatim>\<open>Open\<close> has connected.
  \<open>built\<close> is not a field of the struct: it counts the calls of
  \<^verbatim>\<open>NewAgentMessage\<close>.
\<close>

record SsmDataChannel =
  seqNum :: "64 word"
  ws :: Conn
  synSent :: bool
  handshakeCh :: handshake_chan
  built :: nat

text \<open>\<^verbatim>\<open>atomic.AddInt64(&c.seqNum, 1)\<close>: the new value, and the channel holding it.\<close>

definition AddInt64_seqNum :: "SsmDataChannel \<Rightarrow> 64 word \<times> SsmDataChannel" where
  "AddInt64_seqNum c = (seqNum c + 1, c\<lparr>seqNum := seqNum c + 1\<rparr>)"

definition new_message :: "env \<Rightarrow> SsmDataChannel \<Rightarrow> AgentMessage \<times> SsmDataChannel" where
  "new_message E c = (NewAgentMessage E (built c), c\<lparr>built := Suc (built c)\<rparr>)"

definition WriteMsg ::
  "env \<Rightarrow> SsmDataChannel \<Rightarrow> AgentMessage \<Rightarrow> (nat \<times> error option) \<times> SsmDataChannel"
where
  "WriteMsg E c msg =
     (let c1 = (if \<not> synSent c then c\<lparr>seqNum := 0\<rparr> else c);
          msg1 = (if \<not> synSent c then msg\<lparr>Flags := Syn, SequenceNumber := seqNum c1\<rparr> else msg)
      in case MarshalBinary E msg1 of
           Inl err \<Rightarrow> ((0, Some err), c1)
         | Inr data \<Rightarrow>
             (let (err, w) = WriteMessage (ws c1) data
              in ((unat (payloadLength data), err), c1\<lparr>synSent := True, ws := w\<rparr>)))"

definition Write ::
  "env \<Rightarrow> SsmDataChannel \<Rightarrow> slice \<Rightarrow> (nat \<times> error option) \<times> SsmDataChannel"
where
  "Write E c payload =
     (let (msg, c1) = new_message E c;
          (n, c2) = AddInt64_seqNum c1
      in WriteMsg E c2
           (msg\<lparr>MessageType := InputStreamData, Flags := Data, PayloadType := Output,
                 Payload := payload, SequenceNumber := n\<rparr>))"

definition ProcessHandshakeRequest ::
  "env \<Rightarrow> SsmDataChannel \<Rightarrow> AgentMessage \<Rightarrow> error option \<times> SsmDataChannel"
where
  "ProcessHandshakeRequest E c msg =
     (case json_Unmarshal_HandshakeRequest E (Payload msg) of
        Inl err \<Rightarrow> (Some err, c)
      | Inr actions \<Rightarrow>
          (case json_Marshal_HandshakeResponse E (buildHandshakeResponse actions) of
             Inl err \<Rightarrow> (Some err, c)
           | Inr payload \<Rightarrow>
               (let (out, c1) = new_message E c;
                    (r, c2) = WriteMsg E c1
                      (out\<lparr>MessageType := InputStreamData,
                            SequenceNumber := SequenceNumber msg, Flags := Data,
                            PayloadType := HandshakeResponse, Payload := Some payload\<rparr>)
                in (snd r, c2))))"

definition SetTerminalSize ::
  "env \<Rightarrow> SsmDataChannel \<Rightarrow> 32 word \<Rightarrow> 32 word \<Rightarrow> error option \<times> SsmDataChannel"
where
  "SetTerminalSize E c rows cols =
     (case json_Marshal_Size E rows cols of
        Inl err \<Rightarrow> (Some err, c)
      | Inr payload \<Rightarrow>
          (let (msg, c1) = new_message E c;
               (n, c2) = AddInt64_seqNum c1;
               (r, c3) = WriteMsg E c2
                 (msg\<lparr>MessageType := InputStreamData, Flags := Data, SequenceNumber := n,
                       PayloadType := Size, Payload := Some payload\<rparr>)
           in (snd r, c3)))"

definition SendAcknowledgeMessage ::
  "env \<Rightarrow> SsmDataChannel \<Rightarrow> AgentMessage \<Rightarrow> error option \<times> SsmDataChannel"
where
  "SendAcknowledgeMessage E c msg =
     (case json_Marshal_Acknowledge E
             \<lparr>AcknowledgedMessageType = MessageType msg,
              AcknowledgedMessageId = messageId msg,
              AcknowledgedMessageSequenceNumber = SequenceNumber msg,
              IsSequentialMessage = True\<rparr> of
        Inl err \<Rightarrow> (Some err, c)
      | Inr payload \<Rightarrow>
          (let (agentMsg, c1) = new_message E c;
               (r, c2) = WriteMsg E c1
                 (agentMsg\<lparr>MessageType := Acknowledge, SequenceNumber := SequenceNumber msg,
                            Flags := Ack, PayloadType := Undefined, Payload := Some payload\<rparr>)
           in (snd r, c2)))"

definition TerminateSession :: "env \<Rightarrow> SsmDataChannel \<Rightarrow> error option \<times> SsmDataChannel" where
  "TerminateSession E c =
     (let (msg, c1) = new_message E c;
          (n, c2) = AddInt64_seqNum c1;
          (r, c3) = WriteMsg E c2
            (msg\<lparr>MessageType := InputStreamData, SequenceNumber := n, Flags := Fin,
                  PayloadType := Flag, Payload := Some (PutUint32 (flag_TerminateSession E))\<rparr>)
      in (snd r, c3))"

definition DisconnectPort :: "env \<Rightarrow> SsmDataChannel \<Rightarrow> error option \<times> SsmDataChannel" where
  "DisconnectPort E c =
     (let (msg, c1) = new_message E c;
          (n, c2) = AddInt64_seqNum c1;
          (r, c3) = WriteMsg E c2
            (msg\<lparr>MessageType := InputStreamData, SequenceNumber := n, Flags := Data,
                  PayloadType := Flag, Payload := Some (PutUint32 (flag_DisconnectToPort E))\<rparr>)
      in (snd r, c3))"

subsection \<open>The receive dispatch\<close>

text \<open>The \<^verbatim>\<open>switch\<close> of \<^verbatim>\<open>readMsg\<close>, entered once the frame is acknowledged.
  \<^verbatim>\<open>close\<close> panics on a channel that is already closed.\<close>

definition readMsg_switch ::
  "env \<Rightarrow> SsmDataChannel \<Rightarrow> AgentMessage \<Rightarrow> ((slice \<times> error option) \<times> SsmDataChannel) outcome"
where
  "readMsg_switch E c m =
     (case MessageType m of
        Acknowledge \<Rightarrow> Return ((None, None), c)
      | OutputStreamData \<Rightarrow>
          (case PayloadType m of
             Output \<Rightarrow> Return ((Payload m, None), c)
           | HandshakeRequest \<Rightarrow>
               (case ProcessHandshakeRequest E c m of
                  (Some err, c1) \<Rightarrow> Return ((None, Some err), c1)
                | (None, c1) \<Rightarrow> Return ((None, None), c1))
           | HandshakeComplete \<Rightarrow>
               (case handshakeCh c of
                  ChanNil \<Rightarrow> Return ((None, None), c)
                | ChanOpen \<Rightarrow> Return ((None, None), c\<lparr>handshakeCh := ChanClosed\<rparr>)
                | ChanClosed \<Rightarrow> Panic ''close of closed channel'')
           | _ \<Rightarrow> Return ((None, Some (UnknownIncomingMsgPayload m)), c))
      | ChannelClosed \<Rightarrow>
          (case json_Unmarshal_ChannelClosed E (Payload m) of
             Inl err \<Rightarrow> Return ((None, Some err), c)
           | Inr output \<Rightarrow>
               Return ((if length output > 0 then Some output else None, Some EOF), c))
      | _ \<Rightarrow> Return ((None, Some (UnknownMessageType m)), c))"

definition readMsg ::
  "env \<Rightarrow> SsmDataChannel \<Rightarrow> ((slice \<times> error option) \<times> SsmDataChannel) outcome"
where
  "readMsg E c =
     (case ReadMessage (ws c) of
        (Inl err, w) \<Rightarrow> Return ((None, Some err), c\<lparr>ws := w\<rparr>)
      | (Inr data, w) \<Rightarrow>
          (let c1 = c\<lparr>ws := w\<rparr>
           in case UnmarshalBinary data of
                Inl err \<Rightarrow> Return ((None, Some err), c1)
              | Inr m \<Rightarrow>
                  (case SendAcknowledgeMessage E c1 m of
                     (Some err, c2) \<Rightarrow> Return ((None, Some err), c2)
                   | (None, c2) \<Rightarrow> readMsg_switch E c2 m)))"

text \<open>\<^verbatim>\<open>Read\<close> has no name for its buffer; the model returns it next to the
  result, as the caller finds it afterwards.\<close>

definition Read ::
  "env \<Rightarrow> SsmDataChannel \<Rightarrow> bytes \<Rightarrow> ((nat \<times> error option) \<times> bytes \<times> SsmDataChannel) outcome"
where
  "Read E c buf =
     (case readMsg E c of
        Panic p \<Rightarrow> Panic p
      | Return ((data, err), c1) \<Rightarrow> Return ((len data, err), buf, c1))"

subsection \<open>Reading consumes the script\<close>

text \<open>No send touches the script of what is still to be received, so a read that
  returns without error has taken one frame off it.\<close>

lemma WriteMsg_incoming:
  "WriteMsg E c msg = (r, c') \<Longrightarrow> incoming (ws c') = incoming (ws c)"
  by (auto simp: WriteMsg_def WriteMessage_def Let_def
      split: sum.splits list.splits if_splits prod.splits)

lemma SendAcknowledgeMessage_incoming:
  "SendAcknowledgeMessage E c msg = (r, c') \<Longrightarrow> incoming (ws c') = incoming (ws c)"
  by (auto simp: SendAcknowledgeMessage_def new_message_def Let_def
      split: sum.splits prod.splits dest!: WriteMsg_incoming)

lemma ProcessHandshakeRequest_incoming:
  "ProcessHandshakeRequest E c msg = (r, c') \<Longrightarrow> incoming (ws c') = incoming (ws c)"
  by (auto simp: ProcessHandshakeRequest_def new_message_def Let_def
      split: sum.splits prod.splits dest!: WriteMsg_incoming)

lemma readMsg_switch_incoming:
  "readMsg_switch E c m = Return (r, c') \<Longrightarrow> incoming (ws c') = incoming (ws c)"
  by (auto simp: readMsg_switch_def
      split: MessageType.splits PayloadType.splits prod.splits option.splits
        handshake_chan.splits sum.splits
      dest!: ProcessHandshakeRequest_incoming)

lemma readMsg_consumes:
  "readMsg E c = Return ((data, None), c') \<Longrightarrow>
     length (incoming (ws c')) < length (incoming (ws c))"
  by (auto simp: readMsg_def ReadMessage_def UnmarshalBinary_def Let_def
      split: list.splits sum.splits prod.splits option.splits frame.splits
      dest!: readMsg_switch_incoming SendAcknowledgeMessage_incoming)

subsection \<open>The bulk adapters\<close>

text \<open>
  The loop of \<^verbatim>\<open>WriteTo\<close>. The sink \<open>w\<close> is the sequence of bytes written to it
  so far (the result of \<^verbatim>\<open>w.Write\<close> is dropped by the source), \<open>n\<close> the
  \<^verbatim>\<open>int64\<close> count. The loop ends at the first error of \<^verbatim>\<open>readMsg\<close>,
  which the scripted transport reaches at the latest when its script has run out.
\<close>

function WriteTo_loop ::
  "env \<Rightarrow> SsmDataChannel \<Rightarrow> bytes \<Rightarrow> 64 word \<Rightarrow>
     ((64 word \<times> error option) \<times> bytes \<times> SsmDataChannel) outcome"
where
  "WriteTo_loop E c w n =
     (case readMsg E c of
        Panic p \<Rightarrow> Panic p
      | Return ((data, err), c1) \<Rightarrow>
          (let (n1, w1) = (case data of None \<Rightarrow> (n, w)
                           | Some d \<Rightarrow> (n + of_nat (length d), w @ d))
           in case err of
                Some e \<Rightarrow> Return ((n1, Some e), w1, c1)
              | None \<Rightarrow> WriteTo_loop E c1 w1 n1))"
  by pat_completeness auto
termination
  apply (relation "measure (\<lambda>(E, c, w, n). length (incoming (ws c)))")
   apply simp
  apply (auto dest: readMsg_consumes)
  done

declare WriteTo_loop.simps [simp del]

definition WriteTo ::
  "env \<Rightarrow> SsmDataChannel \<Rightarrow> bytes \<Rightarrow>
     ((64 word \<times> error option) \<times> bytes \<times> SsmDataChannel) outcome"
where
  "WriteTo E c w = WriteTo_loop E c w 0"

text \<open>
  The source of \<^verbatim>\<open>ReadFrom\<close> is a scripted reader: each \<^verbatim>\<open>r.Read(buf)\<close>
  yields the bytes it put into the buffer and its error. A script that has run out
  reports the end of the input.
\<close>

type_synonym reader = "(bytes \<times> error option) list"

fun ReadFrom_loop ::
  "env \<Rightarrow> SsmDataChannel \<Rightarrow> reader \<Rightarrow> 64 word \<Rightarrow> (64 word \<times> error option) \<times> SsmDataChannel"
where
  "ReadFrom_loop E c [] n = ((n, None), c)"
| "ReadFrom_loop E c ((x, err) # r) n =
     (let n1 = n + of_nat (length x)
      in case err of
           Some e \<Rightarrow> ((n1, if e = EOF then None else Some e), c)
         | None \<Rightarrow>
             (case Write E c (Some x) of
                ((k, Some e), c1) \<Rightarrow> ((n1, Some e), c1)
              | ((k, None), c1) \<Rightarrow> ReadFrom_loop E c1 r n1))"

definition ReadFrom ::
  "env \<Rightarrow> SsmDataChannel \<Rightarrow> reader \<Rightarrow> (64 word \<times> error option) \<times> SsmDataChannel"
where
  "ReadFrom E c r = ReadFrom_loop E c r 0"

subsection \<open>Callers\<close>

text \<open>A caller that makes one \<^verbatim>\<open>Write\<close> call per payload, in order, and keeps
  the results.\<close>

fun Writes ::
  "env \<Rightarrow> SsmDataChannel \<Rightarrow> slice list \<Rightarrow> (nat \<times> error option) list \<times> SsmDataChannel"
where
  "Writes E c [] = ([], c)"
| "Writes E c (p # ps) =
     (let (r, c1) = Write E c p;
          (rs, c2) = Writes E c1 ps
      in (r # rs, c2))"

text \<open>The envelopes handed to the transport between two states of a channel.\<close>

definition sent_between :: "SsmDataChannel \<Rightarrow> SsmDataChannel \<Rightarrow> AgentMessage list" where
  "sent_between c c' = drop (length (outgoing (ws c))) (outgoing (ws c'))"

text \<open>The envelope that goes on the wire for a message given to \<^verbatim>\<open>WriteMsg\<close>,
  by whether the initial Syn has been sent: closed form of the override and of the payload
  length, used to state what was sent.\<close>

definition on_wire :: "bool \<Rightarrow> AgentMessage \<Rightarrow> AgentMessage" where
  "on_wire sent msg =
     (if sent then msg else msg\<lparr>Flags := Syn, SequenceNumber := 0\<rparr>)
       \<lparr>payloadLength := of_nat (len (Payload msg))\<rparr>"

text \<open>A channel as \<^verbatim>\<open>Open\<close> leaves it: counter and flag at their zero values,
  the handshake signal made, the web socket connected.\<close>

definition opened :: "Conn \<Rightarrow> SsmDataChannel" where
  "opened w = \<lparr>seqNum = 0, ws = w, synSent = False, handshakeCh = ChanOpen, built = 0\<rparr>"

text \<open>A concrete environment for the examples: every encoder succeeds, the JSON bodies
  are abstracted to short byte strings, and a closing notice decodes to its own payload.\<close>

definition zero_message :: AgentMessage where
  "zero_message =
     \<lparr>MessageType = OtherMessageType [], SequenceNumber = 0, Flags = Data,
      PayloadType = Undefined, Payload = None, messageId = 0, payloadLength = 0\<rparr>"

definition example_env :: env where
  "example_env =
     \<lparr>NewAgentMessage = (\<lambda>k. zero_message\<lparr>messageId := of_nat k + 1\<rparr>),
      MarshalBinary_error = (\<lambda>m. None),
      json_Unmarshal_HandshakeRequest =
        (\<lambda>p. Inr [\<lparr>RequestedClientAction.ActionType = SessionType, ActionParameters = []\<rparr>]),
      json_Unmarshal_ChannelClosed = (\<lambda>p. Inr (case p of None \<Rightarrow> [] | Some bs \<Rightarrow> bs)),
      json_Marshal_HandshakeResponse = (\<lambda>r. Inr [1]),
      json_Marshal_Acknowledge = (\<lambda>a. Inr [2]),
      json_Marshal_Size = (\<lambda>rows cols. Inr [3]),
      flag_TerminateSession = 2,
      flag_DisconnectToPort = 1\<rparr>"

definition example_conn :: "(error + frame) list \<Rightarrow> Conn" where
  "example_conn fs = \<lparr>incoming = fs, write_results = [], outgoing = []\<rparr>"




text \<open>A message for the examples, and the channel after it has been given to
  \<^verbatim>\<open>WriteMsg\<close> once and twice.\<close>

definition example_message :: AgentMessage where
  "example_message =
     zero_message\<lparr>MessageType := InputStreamData, SequenceNumber := 41, Flags := Fin,
                   PayloadType := Flag, Payload := Some [0, 0, 0, 2], messageId := 77\<rparr>"

definition example_first :: SsmDataChannel where
  "example_first = snd (WriteMsg example_env (opened (example_conn [])) example_message)"


text \<open>An inbound frame for the examples, and the channel after acknowledging it.\<close>

definition example_inbound :: AgentMessage where
  "example_inbound =
     zero_message\<lparr>MessageType := OutputStreamData, SequenceNumber := 7, Flags := Data,
                   PayloadType := Output, Payload := Some [104, 105], messageId := 99,
                   payloadLength := 2\<rparr>"

definition example_acknowledged :: SsmDataChannel where
  "example_acknowledged = snd (SendAcknowledgeMessage example_env example_first example_inbound)"

text \<open>The channel once \<^verbatim>\<open>ReadMessage\<close> has taken a frame off the transport.\<close>

definition received :: "SsmDataChannel \<Rightarrow> (error + frame) list \<Rightarrow> SsmDataChannel" where
  "received c rest = c\<lparr>ws := (ws c)\<lparr>incoming := rest\<rparr>\<rparr>"

text \<open>The content of the acknowledgment of an inbound message.\<close>

definition acknowledgment :: "AgentMessage \<Rightarrow> AcknowledgeContent" where
  "acknowledgment m =
     \<lparr>AcknowledgedMessageType = MessageType m, AcknowledgedMessageId = messageId m,
      AcknowledgedMessageSequenceNumber = SequenceNumber m, IsSequentialMessage = True\<rparr>"

text \<open>More inbound frames for the examples, and an opened channel whose transport is about
  to deliver the given envelopes.\<close>

definition example_ChannelClosed :: AgentMessage where
  "example_ChannelClosed =
     zero_message\<lparr>MessageType := ChannelClosed, SequenceNumber := 8,
                   Payload := Some [98, 121, 101], messageId := 100, payloadLength := 3\<rparr>"

definition example_HandshakeComplete :: AgentMessage where
  "example_HandshakeComplete =
     zero_message\<lparr>MessageType := OutputStreamData, SequenceNumber := 1,
                   PayloadType := HandshakeComplete, messageId := 98\<rparr>"

definition example_Size :: AgentMessage where
  "example_Size =
     zero_message\<lparr>MessageType := OutputStreamData, SequenceNumber := 3,
                   PayloadType := Size, Payload := Some [1], messageId := 97, payloadLength := 1\<rparr>"

definition example_InputStreamData :: AgentMessage where
  "example_InputStreamData =
     zero_message\<lparr>MessageType := InputStreamData, SequenceNumber := 4,
                   PayloadType := Output, Payload := Some [1], messageId := 96, payloadLength := 1\<rparr>"

definition receiving :: "AgentMessage list \<Rightarrow> SsmDataChannel" where
  "receiving ms = opened (example_conn (map (\<lambda>m. Inr (Encoded m)) ms))"

text \<open>An opened channel about to receive the closing notice on a transport whose next
  write fails.\<close>

definition example_broken_pipe :: SsmDataChannel where
  "example_broken_pipe =
     opened \<lparr>incoming = [Inr (Encoded example_ChannelClosed)],
             write_results = [Some (Err ''broken pipe'')], outgoing = []\<rparr>"

lemmas model_defs = Write_def WriteMsg_def MarshalBinary_def WriteMessage_def
  new_message_def AddInt64_seqNum_def opened_def example_env_def example_conn_def
  zero_message_def len_def Let_def sent_between_def

section \<open>The handshake negotiator\<close>

lemma range_actions_length: "length (range_actions i as res) = length res"
  by (induction as arbitrary: i res) auto

lemma range_actions_nth:
  "i + length as \<le> length res \<Longrightarrow> j < length res \<Longrightarrow>
     range_actions i as res ! j =
       (if i \<le> j \<and> j < i + length as then processed_action (as ! (j - i)) else res ! j)"
proof (induction as arbitrary: i res)
  case Nil
  then show ?case by auto
next
  case (Cons a as)
  have "range_actions (Suc i) as (res[i := processed_action a]) ! j =
      (if Suc i \<le> j \<and> j < Suc i + length as then processed_action (as ! (j - Suc i))
       else res[i := processed_action a] ! j)"
    using Cons.prems by (intro Cons.IH) auto
  then show ?case
    using Cons.prems by (auto simp: nth_Cons' Suc_diff_Suc not_less_eq_eq le_Suc_eq)
qed

lemma buildHandshakeResponse_nth:
  "i < length actions \<Longrightarrow>
     ProcessedClientActions (buildHandshakeResponse actions) ! i = processed_action (actions ! i)"
  by (simp add: buildHandshakeResponse_def range_actions_nth)

text \<open>
  C4, as the code has it. For every list of \<open>k\<close> requested client actions,
  \<^verbatim>\<open>buildHandshakeResponse\<close> returns a response with exactly \<open>k\<close> processed
  actions, the one at index \<open>i\<close> answering the request at index \<open>i\<close>, and the client
  version \<^verbatim>\<open>0.0.1\<close>. A requested action of type \<open>SessionType\<close> is answered with
  that type and status \<open>Success\<close>. Any other requested action is answered with the
  zero \<^verbatim>\<open>ProcessedClientAction\<close>: its status is unset and its action type is the
  empty zero value, not the requested type.
\<close>

theorem buildHandshakeResponse_entries:
  "length (ProcessedClientActions (buildHandshakeResponse actions)) = length actions \<and>
   ClientVersion (buildHandshakeResponse actions) = ''0.0.1'' \<and>
   (\<forall>i < length actions.
      (RequestedClientAction.ActionType (actions ! i) = SessionType \<longrightarrow>
         ProcessedClientAction.ActionType (ProcessedClientActions (buildHandshakeResponse actions) ! i)
           = SessionType \<and>
         ActionStatus (ProcessedClientActions (buildHandshakeResponse actions) ! i) = Success) \<and>
      (RequestedClientAction.ActionType (actions ! i) \<noteq> SessionType \<longrightarrow>
         ProcessedClientActions (buildHandshakeResponse actions) ! i = new_ProcessedClientAction \<and>
         ProcessedClientAction.ActionType (ProcessedClientActions (buildHandshakeResponse actions) ! i)
           = [] \<and>
         ActionStatus (ProcessedClientActions (buildHandshakeResponse actions) ! i)
           = ActionStatusUnset))"
proof -
  have len: "length (ProcessedClientActions (buildHandshakeResponse actions)) = length actions"
    by (simp add: buildHandshakeResponse_def range_actions_length)
  have ver: "ClientVersion (buildHandshakeResponse actions) = ''0.0.1''"
    by (simp add: buildHandshakeResponse_def)
  show ?thesis
    using len ver
    by (auto simp: buildHandshakeResponse_nth processed_action_def Let_def
        new_ProcessedClientAction_def)
qed

theorem buildHandshakeResponse_entries_witness:
  "(1::nat) < length [\<lparr>RequestedClientAction.ActionType = ''KMSEncryption'', ActionParameters = []\<rparr>,
       \<lparr>RequestedClientAction.ActionType = ''SessionType'', ActionParameters = []\<rparr>] \<and>
   RequestedClientAction.ActionType ([\<lparr>RequestedClientAction.ActionType = ''KMSEncryption'', ActionParameters = []\<rparr>,
       \<lparr>RequestedClientAction.ActionType = ''SessionType'', ActionParameters = []\<rparr>] ! 0) \<noteq> SessionType \<and>
   RequestedClientAction.ActionType ([\<lparr>RequestedClientAction.ActionType = ''KMSEncryption'', ActionParameters = []\<rparr>,
       \<lparr>RequestedClientAction.ActionType = ''SessionType'', ActionParameters = []\<rparr>] ! 1) = SessionType \<and>
   length (ProcessedClientActions (buildHandshakeResponse
     [\<lparr>RequestedClientAction.ActionType = ''KMSEncryption'', ActionParameters = []\<rparr>,
       \<lparr>RequestedClientAction.ActionType = ''SessionType'', ActionParameters = []\<rparr>])) = 2 \<and>
   ProcessedClientActions (buildHandshakeResponse
     [\<lparr>RequestedClientAction.ActionType = ''KMSEncryption'', ActionParameters = []\<rparr>,
       \<lparr>RequestedClientAction.ActionType = ''SessionType'', ActionParameters = []\<rparr>]) ! 0 =
     \<lparr>ProcessedClientAction.ActionType = [], ActionStatus = ActionStatusUnset, Error = []\<rparr> \<and>
   ProcessedClientAction.ActionType (ProcessedClientActions (buildHandshakeResponse
     [\<lparr>RequestedClientAction.ActionType = ''KMSEncryption'', ActionParameters = []\<rparr>,
       \<lparr>RequestedClientAction.ActionType = ''SessionType'', ActionParameters = []\<rparr>]) ! 1) = ''SessionType'' \<and>
   ActionStatus (ProcessedClientActions (buildHandshakeResponse
     [\<lparr>RequestedClientAction.ActionType = ''KMSEncryption'', ActionParameters = []\<rparr>,
       \<lparr>RequestedClientAction.ActionType = ''SessionType'', ActionParameters = []\<rparr>]) ! 1) = Success"
proof -
  let ?as = "[\<lparr>RequestedClientAction.ActionType = ''KMSEncryption'', ActionParameters = []\<rparr>,
       \<lparr>RequestedClientAction.ActionType = ''SessionType'', ActionParameters = []\<rparr>]"
  let ?res = "ProcessedClientActions (buildHandshakeResponse ?as)"
  note entries = buildHandshakeResponse_entries [of ?as]
  have h0: "RequestedClientAction.ActionType (?as ! 0) \<noteq> SessionType"
    by (simp add: SessionType_def)
  have h1: "RequestedClientAction.ActionType (?as ! 1) = SessionType"
    by (simp add: SessionType_def)
  have l: "length ?res = 2" using entries by simp
  have e0: "?res ! 0 = new_ProcessedClientAction" using entries h0 by simp
  have a1: "ProcessedClientAction.ActionType (?res ! 1) = SessionType"
    and s1: "ActionStatus (?res ! 1) = Success" using entries h1 by simp_all
  show ?thesis using h0 h1 l e0 a1 s1
    by (simp add: SessionType_def new_ProcessedClientAction_def)
qed

text \<open>
  C4 as the spec states it has the type of every other requested action echoed back in
  its processed entry. For a request of type \<^verbatim>\<open>KMSEncryption\<close> the entry does not
  carry that type.
\<close>

theorem buildHandshakeResponse_echo_counterexample:
  "\<not> (ProcessedClientAction.ActionType
        (ProcessedClientActions (buildHandshakeResponse
           [\<lparr>RequestedClientAction.ActionType = ''KMSEncryption'', ActionParameters = []\<rparr>]) ! 0)
       = ''KMSEncryption'' \<and>
      ActionStatus
        (ProcessedClientActions (buildHandshakeResponse
           [\<lparr>RequestedClientAction.ActionType = ''KMSEncryption'', ActionParameters = []\<rparr>]) ! 0)
       = ActionStatusUnset)"
  by (simp add: buildHandshakeResponse_def processed_action_def new_ProcessedClientAction_def
      SessionType_def)

section \<open>Outbound messages\<close>



lemma WriteMsg_first_failed:
  assumes "\<not> synSent c" and "WriteMsg E c msg = ((n, err), c')"
    and "MarshalBinary E (msg\<lparr>Flags := Syn, SequenceNumber := 0\<rparr>) = Inl e"
  shows "outgoing (ws c') = outgoing (ws c)" and "\<not> synSent c'" and "err = Some e" and "n = 0"
  using assms
  by (auto simp: WriteMsg_def WriteMessage_def Let_def split: prod.splits list.splits)


lemma WriteMsg_later_failed:
  assumes "synSent c" and "WriteMsg E c msg = ((n, err), c')"
    and "MarshalBinary E msg = Inl e"
  shows "c' = c" and "err = Some e" and "n = 0"
  using assms
  by (auto simp: WriteMsg_def WriteMessage_def Let_def split: prod.splits list.splits)

lemma WriteMsg_ok_marshalled:
  assumes "WriteMsg E c msg = ((n, None), c')"
  shows "\<exists>data. MarshalBinary E (if synSent c then msg else msg\<lparr>Flags := Syn, SequenceNumber := 0\<rparr>) = Inr data"
  using assms
  by (auto simp: WriteMsg_def WriteMessage_def Let_def split: prod.splits list.splits sum.splits if_splits)



lemma WriteMsg_ok:
  assumes "WriteMsg E c msg = ((n, None), c')"
  shows "outgoing (ws c') = outgoing (ws c) @ [on_wire (synSent c) msg]"
    and "synSent c'" and "seqNum c' = (if synSent c then seqNum c else 0)"
    and "built c' = built c" and "handshakeCh c' = handshakeCh c"
  using assms
  by (auto simp: WriteMsg_def WriteMessage_def MarshalBinary_def on_wire_def Let_def
      split: prod.splits list.splits sum.splits option.splits if_splits)

lemma WriteMsg_seqNum:
  "WriteMsg E c msg = (r, c') \<Longrightarrow> seqNum c' = (if synSent c then seqNum c else 0)"
  by (auto simp: WriteMsg_def WriteMessage_def Let_def
      split: prod.splits list.splits sum.splits if_splits)

lemma Write_ok:
  assumes "Write E c p = ((n, None), c')"
  shows "outgoing (ws c') = outgoing (ws c) @
           [on_wire (synSent c)
              ((NewAgentMessage E (built c))
                 \<lparr>MessageType := InputStreamData, Flags := Data, PayloadType := Output,
                  Payload := p, SequenceNumber := seqNum c + 1\<rparr>)]"
    and "synSent c'" and "seqNum c' = (if synSent c then seqNum c + 1 else 0)"
  using assms
  by (auto simp: Write_def new_message_def AddInt64_seqNum_def Let_def
      split: prod.splits dest: WriteMsg_ok)


lemma Writes_later:
  assumes "synSent c" and "Writes E c ps = (rs, c')" and "\<forall>r \<in> set rs. snd r = None"
  shows "take (length (outgoing (ws c))) (outgoing (ws c')) = outgoing (ws c) \<and>
         length (sent_between c c') = length ps \<and>
         map SequenceNumber (sent_between c c') = map (\<lambda>i. seqNum c + 1 + of_nat i) [0..<length ps] \<and>
         map Flags (sent_between c c') = replicate (length ps) Data \<and>
         map Payload (sent_between c c') = ps \<and>
         map MessageType (sent_between c c') = replicate (length ps) InputStreamData \<and>
         map PayloadType (sent_between c c') = replicate (length ps) Output"
  using assms
proof (induction ps arbitrary: c rs)
  case Nil
  then show ?case by (simp add: sent_between_def)
next
  case (Cons p ps)
  obtain r c1 where w: "Write E c p = (r, c1)" by (cases "Write E c p")
  obtain rs1 where ws1: "Writes E c1 ps = (rs1, c')" and rs: "rs = r # rs1"
    using Cons.prems(2) w by (auto split: prod.splits)
  obtain n where r: "r = (n, None)" using Cons.prems(3) rs by (cases r) auto
  note ok = Write_ok [OF w [unfolded r]]
  have s1: "synSent c1" by (rule ok)
  have all1: "\<forall>r \<in> set rs1. snd r = None" using Cons.prems(3) rs by simp
  note ih = Cons.IH [OF s1 ws1 all1]
  let ?m = "on_wire (synSent c)
              ((NewAgentMessage E (built c))
                 \<lparr>MessageType := InputStreamData, Flags := Data, PayloadType := Output,
                  Payload := p, SequenceNumber := seqNum c + 1\<rparr>)"
  have o1: "outgoing (ws c1) = outgoing (ws c) @ [?m]" by (rule ok)
  have q1: "seqNum c1 = seqNum c + 1" using ok(3) Cons.prems(1) by simp
  have pre: "outgoing (ws c') = outgoing (ws c1) @ sent_between c1 c'"
    using ih by (metis append_take_drop_id sent_between_def)
  have sb: "sent_between c c' = ?m # sent_between c1 c'"
    unfolding sent_between_def [of c c'] using pre o1 by simp
  have tk: "take (length (outgoing (ws c))) (outgoing (ws c')) = outgoing (ws c)"
    using pre o1 by simp
  have up: "[0..<length (p # ps)] = 0 # map Suc [0..<length ps]"
    by (simp add: upt_conv_Cons map_Suc_upt del: upt_Suc)
  have sq: "map (\<lambda>i. seqNum c + 1 + of_nat i) [0..<length (p # ps)] =
      (seqNum c + 1) # map (\<lambda>i. seqNum c1 + 1 + of_nat i) [0..<length ps]"
    unfolding up by (simp add: q1 o_def ac_simps)
  show ?case
    using ih tk Cons.prems(1) unfolding sb sq
    by (simp add: on_wire_def)
qed

lemma sint_of_nat_int64:
  assumes "i < 2 ^ 63"
  shows "sint (of_nat i :: 64 word) = int i"
proof -
  have "int i < 2 ^ 63" using assms by (metis of_nat_less_iff of_nat_numeral of_nat_power)
  moreover have "- (2 ^ 63) \<le> int i" by (smt (verit) of_nat_0_le_iff zero_less_power)
  ultimately show ?thesis
    by (simp add: signed_of_nat signed_take_bit_int_eq_self)
qed

text \<open>
  C1. On a channel that has not yet sent its initial Syn (as \<^verbatim>\<open>Open\<close> leaves it),
  let a caller make one \<^verbatim>\<open>Write\<close> call per payload of \<open>ps\<close>, with no other
  traffic, every call returning without error. Then exactly \<open>length ps\<close> envelopes
  were handed to the transport, after what was there before; the \<open>i\<close>-th of them
  carries the sequence number \<open>i\<close> (as an \<^verbatim>\<open>int64\<close>; read as a signed number
  it is \<open>i\<close> for up to \<open>2 ^ 63\<close> calls) and the payload of the \<open>i\<close>-th call; the
  first carries the Syn flag and every other one the Data flag.
\<close>

theorem Writes_sequence_numbers:
  assumes "\<not> synSent c" and "Writes E c ps = (rs, c')" and "\<forall>r \<in> set rs. snd r = None"
  shows "take (length (outgoing (ws c))) (outgoing (ws c')) = outgoing (ws c) \<and>
         length (sent_between c c') = length ps \<and>
         map SequenceNumber (sent_between c c') = map of_nat [0..<length ps] \<and>
         (length ps \<le> 2 ^ 63 \<longrightarrow>
            map (\<lambda>m. sint (SequenceNumber m)) (sent_between c c') = map int [0..<length ps]) \<and>
         (\<forall>i < length ps. Flags (sent_between c c' ! i) = (if i = 0 then Syn else Data)) \<and>
         map Payload (sent_between c c') = ps"
proof (cases ps)
  case Nil
  then show ?thesis using assms by (simp add: sent_between_def)
next
  case (Cons p qs)
  obtain r c1 where w: "Write E c p = (r, c1)" by (cases "Write E c p")
  obtain rs1 where ws1: "Writes E c1 qs = (rs1, c')" and rs: "rs = r # rs1"
    using assms(2) w Cons by (auto split: prod.splits)
  obtain n where r: "r = (n, None)" using assms(3) rs by (cases r) auto
  note ok = Write_ok [OF w [unfolded r]]
  have s1: "synSent c1" by (rule ok)
  have all1: "\<forall>r \<in> set rs1. snd r = None" using assms(3) rs by simp
  note later = Writes_later [OF s1 ws1 all1]
  let ?m = "on_wire (synSent c)
              ((NewAgentMessage E (built c))
                 \<lparr>MessageType := InputStreamData, Flags := Data, PayloadType := Output,
                  Payload := p, SequenceNumber := seqNum c + 1\<rparr>)"
  have o1: "outgoing (ws c1) = outgoing (ws c) @ [?m]" by (rule ok)
  have q1: "seqNum c1 = 0" using ok(3) assms(1) by simp
  have pre: "outgoing (ws c') = outgoing (ws c1) @ sent_between c1 c'"
    using later by (metis append_take_drop_id sent_between_def)
  have sb: "sent_between c c' = ?m # sent_between c1 c'"
    unfolding sent_between_def [of c c'] using pre o1 by simp
  have tk: "take (length (outgoing (ws c))) (outgoing (ws c')) = outgoing (ws c)"
    using pre o1 by simp
  have up: "[0..<length ps] = 0 # map Suc [0..<length qs]"
    unfolding Cons by (simp add: upt_conv_Cons map_Suc_upt del: upt_Suc)
  have m0: "SequenceNumber ?m = 0" "Flags ?m = Syn" "Payload ?m = p"
    using assms(1) by (simp_all add: on_wire_def)
  have len: "length (sent_between c c') = length ps"
    using later sb Cons by simp
  have seqs: "map SequenceNumber (sent_between c c') = map of_nat [0..<length ps]"
    unfolding sb up using later m0 by (simp add: q1 o_def ac_simps)
  have flags: "\<forall>i < length ps. Flags (sent_between c c' ! i) = (if i = 0 then Syn else Data)"
  proof (intro allI impI)
    fix i assume i: "i < length ps"
    show "Flags (sent_between c c' ! i) = (if i = 0 then Syn else Data)"
    proof (cases i)
      case 0
      then show ?thesis using m0 sb by simp
    next
      case (Suc j)
      then have j: "j < length qs" using i Cons by simp
      have lf: "map Flags (sent_between c1 c') = replicate (length qs) Data"
        and ll: "length (sent_between c1 c') = length qs" using later by simp_all
      have "Flags (sent_between c1 c' ! j) = map Flags (sent_between c1 c') ! j"
        using ll j by (metis nth_map)
      also have "\<dots> = Data" unfolding lf using j by simp
      finally show ?thesis using Suc sb by simp
    qed
  qed
  have signed: "map (\<lambda>m. sint (SequenceNumber m)) (sent_between c c') = map int [0..<length ps]"
    if "length ps \<le> 2 ^ 63"
  proof -
    have "map (\<lambda>m. sint (SequenceNumber m)) (sent_between c c') =
        map sint (map SequenceNumber (sent_between c c'))" by (simp add: o_def)
    also have "\<dots> = map (\<lambda>i. sint (of_nat i :: 64 word)) [0..<length ps]"
      unfolding seqs by (simp add: o_def)
    also have "\<dots> = map int [0..<length ps]"
    proof (rule map_cong [OF refl])
      fix i assume "i \<in> set [0..<length ps]"
      then have "i < 2 ^ 63" using that by simp
      then show "sint (of_nat i :: 64 word) = int i" by (rule sint_of_nat_int64)
    qed
    finally show ?thesis .
  qed
  have pay: "map Payload (sent_between c c') = ps"
    using later sb Cons m0 by simp
  show ?thesis using tk len seqs flags signed pay by blast
qed

theorem Writes_sequence_numbers_witness:
  "\<not> synSent (opened (example_conn [])) \<and>
   map snd (fst (Writes example_env (opened (example_conn [])) [Some [1], Some [2, 3], None]))
     = [None, None, None] \<and>
   length [Some [1], Some [2, 3], None :: slice] \<le> 2 ^ 63 \<and>
   map SequenceNumber (sent_between (opened (example_conn []))
      (snd (Writes example_env (opened (example_conn [])) [Some [1], Some [2, 3], None])))
     = [0, 1, 2] \<and>
   map (\<lambda>m. sint (SequenceNumber m)) (sent_between (opened (example_conn []))
      (snd (Writes example_env (opened (example_conn [])) [Some [1], Some [2, 3], None])))
     = [0, 1, 2] \<and>
   Flags (sent_between (opened (example_conn []))
      (snd (Writes example_env (opened (example_conn [])) [Some [1], Some [2, 3], None])) ! 0)
     = Syn \<and>
   Flags (sent_between (opened (example_conn []))
      (snd (Writes example_env (opened (example_conn [])) [Some [1], Some [2, 3], None])) ! 1)
     = Data \<and>
   Flags (sent_between (opened (example_conn []))
      (snd (Writes example_env (opened (example_conn [])) [Some [1], Some [2, 3], None])) ! 2)
     = Data"
proof -
  let ?c = "opened (example_conn [])"
  let ?ps = "[Some [1], Some [2, 3], None :: slice]"
  let ?run = "Writes example_env ?c ?ps"
  let ?sent = "sent_between ?c (snd ?run)"
  have fresh: "\<not> synSent ?c" by (simp add: opened_def)
  have run: "?run = (fst ?run, snd ?run)" by simp
  have res: "fst ?run = [(1, None), (2, None), (0, None)]" by (simp add: model_defs)
  have ok: "\<forall>r \<in> set (fst ?run). snd r = None" unfolding res by simp
  have small: "length ?ps \<le> 2 ^ 63" by simp
  have n: "length ?ps = 3" by simp
  have u: "[0..<3] = [0, 1, 2]" by (simp add: upt_rec)
  note t = Writes_sequence_numbers [OF fresh run ok, unfolded n u]
  have l: "length ?sent = 3" using t by blast
  have s: "map SequenceNumber ?sent = [0, 1, 2]"
    using t by (simp del: Writes.simps)
  have i: "map (\<lambda>m. sint (SequenceNumber m)) ?sent = [0, 1, 2]"
    using t by (simp del: Writes.simps)
  have f: "Flags (?sent ! 0) = Syn" "Flags (?sent ! 1) = Data" "Flags (?sent ! 2) = Data"
    using t by (simp_all del: Writes.simps)
  show ?thesis using fresh res small s i f by (simp del: Writes.simps)
qed

subsection \<open>The initial-send flag is never cleared\<close>














subsection \<open>The first-write override\<close>




subsection \<open>Which messages draw from the sequence counter\<close>

lemma sent_between_single:
  "outgoing (ws c') = outgoing (ws c) @ [m] \<Longrightarrow> sent_between c c' = [m]"
  by (simp add: sent_between_def)

lemma counted_send:
  assumes "synSent c"
    and "WriteMsg E (c\<lparr>built := Suc (built c), seqNum := seqNum c + 1\<rparr>) msg = ((n, None), c')"
    and "SequenceNumber msg = seqNum c + 1"
  shows "seqNum c' = seqNum c + 1 \<and> map SequenceNumber (sent_between c c') = [seqNum c + 1]"
proof -
  let ?c1 = "c\<lparr>built := Suc (built c), seqNum := seqNum c + 1\<rparr>"
  note ok = WriteMsg_ok [OF assms(2)]
  have "outgoing (ws c') = outgoing (ws c) @ [on_wire True msg]"
    using ok(1) assms(1) by simp
  then have "sent_between c c' = [on_wire True msg]" by (rule sent_between_single)
  moreover have "seqNum c' = seqNum c + 1" using ok(3) assms(1) by simp
  ultimately show ?thesis using assms(3) by (simp add: on_wire_def)
qed

lemma echoed_send:
  assumes "synSent c"
    and "WriteMsg E (c\<lparr>built := Suc (built c)\<rparr>) msg = ((n, None), c')"
  shows "seqNum c' = seqNum c \<and> map SequenceNumber (sent_between c c') = [SequenceNumber msg]"
proof -
  note ok = WriteMsg_ok [OF assms(2)]
  have "outgoing (ws c') = outgoing (ws c) @ [on_wire True msg]"
    using ok(1) assms(1) by simp
  then have "sent_between c c' = [on_wire True msg]" by (rule sent_between_single)
  moreover have "seqNum c' = seqNum c" using ok(3) assms(1) by simp
  ultimately show ?thesis by (simp add: on_wire_def)
qed

text \<open>
  C3, as the code has it. After the first outbound message, every message that
  \<^verbatim>\<open>Write\<close>, \<^verbatim>\<open>SetTerminalSize\<close>, \<^verbatim>\<open>TerminateSession\<close> or
  \<^verbatim>\<open>DisconnectPort\<close> sends increments the sequence counter by 1 and carries the
  incremented value as its sequence number. An acknowledgment and a handshake response
  leave the counter as it is and carry the sequence number of the inbound message they
  answer. (Each for a call that returns without error, which sends exactly one envelope.)
\<close>

theorem sequence_number_by_operation:
  assumes "synSent c"
  shows "(Write E c p = ((n, None), c1) \<longrightarrow>
            seqNum c1 = seqNum c + 1 \<and>
            map SequenceNumber (sent_between c c1) = [seqNum c + 1]) \<and>
         (SetTerminalSize E c rows cols = (None, c2) \<longrightarrow>
            seqNum c2 = seqNum c + 1 \<and>
            map SequenceNumber (sent_between c c2) = [seqNum c + 1]) \<and>
         (TerminateSession E c = (None, c3) \<longrightarrow>
            seqNum c3 = seqNum c + 1 \<and>
            map SequenceNumber (sent_between c c3) = [seqNum c + 1]) \<and>
         (DisconnectPort E c = (None, c4) \<longrightarrow>
            seqNum c4 = seqNum c + 1 \<and>
            map SequenceNumber (sent_between c c4) = [seqNum c + 1]) \<and>
         (SendAcknowledgeMessage E c msg = (None, c5) \<longrightarrow>
            seqNum c5 = seqNum c \<and>
            map SequenceNumber (sent_between c c5) = [SequenceNumber msg]) \<and>
         (ProcessHandshakeRequest E c msg = (None, c6) \<longrightarrow>
            seqNum c6 = seqNum c \<and>
            map SequenceNumber (sent_between c c6) = [SequenceNumber msg])"
proof (intro conjI impI)
  assume "Write E c p = ((n, None), c1)"
  then show "seqNum c1 = seqNum c + 1" "map SequenceNumber (sent_between c c1) = [seqNum c + 1]"
    using counted_send [OF assms, of E _ n c1]
    by (auto simp: Write_def new_message_def AddInt64_seqNum_def Let_def)
next
  assume "SetTerminalSize E c rows cols = (None, c2)"
  then show "seqNum c2 = seqNum c + 1" "map SequenceNumber (sent_between c c2) = [seqNum c + 1]"
    using counted_send [OF assms, of E _ _ c2]
    by (auto simp: SetTerminalSize_def new_message_def AddInt64_seqNum_def Let_def
        split: sum.splits prod.splits)
next
  assume "TerminateSession E c = (None, c3)"
  then show "seqNum c3 = seqNum c + 1" "map SequenceNumber (sent_between c c3) = [seqNum c + 1]"
    using counted_send [OF assms, of E _ _ c3]
    by (auto simp: TerminateSession_def new_message_def AddInt64_seqNum_def Let_def
        split: sum.splits prod.splits)
next
  assume "DisconnectPort E c = (None, c4)"
  then show "seqNum c4 = seqNum c + 1" "map SequenceNumber (sent_between c c4) = [seqNum c + 1]"
    using counted_send [OF assms, of E _ _ c4]
    by (auto simp: DisconnectPort_def new_message_def AddInt64_seqNum_def Let_def
        split: sum.splits prod.splits)
next
  assume "SendAcknowledgeMessage E c msg = (None, c5)"
  then show "seqNum c5 = seqNum c" "map SequenceNumber (sent_between c c5) = [SequenceNumber msg]"
    using echoed_send [OF assms, of E _ _ c5]
    by (auto simp: SendAcknowledgeMessage_def new_message_def Let_def
        split: sum.splits prod.splits)
next
  assume "ProcessHandshakeRequest E c msg = (None, c6)"
  then show "seqNum c6 = seqNum c" "map SequenceNumber (sent_between c c6) = [SequenceNumber msg]"
    using echoed_send [OF assms, of E _ _ c6]
    by (auto simp: ProcessHandshakeRequest_def new_message_def Let_def
        split: sum.splits prod.splits)
qed

text \<open>
  C3 as the spec states it has acknowledgments draw from the same counter. After one
  message has gone out, acknowledging an inbound frame with sequence number 7 neither
  increments the counter nor sends the incremented value.
\<close>

theorem Acknowledge_shares_counter_counterexample:
  "\<not> (seqNum example_acknowledged = seqNum example_first + 1 \<and>
       map SequenceNumber (sent_between example_first example_acknowledged)
         = [seqNum example_first + 1])"
  by (simp add: example_acknowledged_def example_first_def example_inbound_def
      example_message_def SendAcknowledgeMessage_def model_defs)


lemma Acknowledge_echoes_example:
  "synSent example_first \<and> seqNum example_first = 0 \<and>
   seqNum example_acknowledged = 0 \<and>
   map MessageType (sent_between example_first example_acknowledged) = [Acknowledge] \<and>
   map SequenceNumber (sent_between example_first example_acknowledged) = [7]"
  by (simp add: example_acknowledged_def example_first_def example_inbound_def
      example_message_def SendAcknowledgeMessage_def model_defs)

theorem sequence_number_by_operation_witness:
  "synSent example_first \<and>
   seqNum example_first = 0 \<and>
   SequenceNumber example_inbound = 7 \<and>
   snd (fst (Write example_env example_first (Some [1]))) = None \<and>
   seqNum (snd (Write example_env example_first (Some [1]))) = 1 \<and>
   map SequenceNumber (sent_between example_first
     (snd (Write example_env example_first (Some [1])))) = [1] \<and>
   fst (SetTerminalSize example_env example_first 24 80) = None \<and>
   seqNum (snd (SetTerminalSize example_env example_first 24 80)) = 1 \<and>
   map SequenceNumber (sent_between example_first
     (snd (SetTerminalSize example_env example_first 24 80))) = [1] \<and>
   fst (TerminateSession example_env example_first) = None \<and>
   seqNum (snd (TerminateSession example_env example_first)) = 1 \<and>
   map SequenceNumber (sent_between example_first
     (snd (TerminateSession example_env example_first))) = [1] \<and>
   fst (DisconnectPort example_env example_first) = None \<and>
   seqNum (snd (DisconnectPort example_env example_first)) = 1 \<and>
   map SequenceNumber (sent_between example_first
     (snd (DisconnectPort example_env example_first))) = [1] \<and>
   fst (SendAcknowledgeMessage example_env example_first example_inbound) = None \<and>
   seqNum (snd (SendAcknowledgeMessage example_env example_first example_inbound)) = 0 \<and>
   map SequenceNumber (sent_between example_first
     (snd (SendAcknowledgeMessage example_env example_first example_inbound))) = [7] \<and>
   fst (ProcessHandshakeRequest example_env example_first example_inbound) = None \<and>
   seqNum (snd (ProcessHandshakeRequest example_env example_first example_inbound)) = 0 \<and>
   map SequenceNumber (sent_between example_first
     (snd (ProcessHandshakeRequest example_env example_first example_inbound))) = [7]"
proof -
  let ?E = example_env and ?c = example_first and ?m = example_inbound
  let ?c1 = "snd (Write ?E ?c (Some [1]))"
  let ?c2 = "snd (SetTerminalSize ?E ?c 24 80)"
  let ?c3 = "snd (TerminateSession ?E ?c)"
  let ?c4 = "snd (DisconnectPort ?E ?c)"
  let ?c5 = "snd (SendAcknowledgeMessage ?E ?c ?m)"
  let ?c6 = "snd (ProcessHandshakeRequest ?E ?c ?m)"
  note defs = example_first_def example_inbound_def example_message_def model_defs
  have s: "synSent ?c" and q: "seqNum ?c = 0" by (simp_all add: defs)
  have m: "SequenceNumber ?m = 7" by (simp add: example_inbound_def)
  have r1: "fst (Write ?E ?c (Some [1])) = (1, None)" by (simp add: defs)
  have r2: "fst (SetTerminalSize ?E ?c 24 80) = None" by (simp add: SetTerminalSize_def defs)
  have r3: "fst (TerminateSession ?E ?c) = None" by (simp add: TerminateSession_def defs)
  have r4: "fst (DisconnectPort ?E ?c) = None" by (simp add: DisconnectPort_def defs)
  have r5: "fst (SendAcknowledgeMessage ?E ?c ?m) = None"
    by (simp add: SendAcknowledgeMessage_def defs)
  have r6: "fst (ProcessHandshakeRequest ?E ?c ?m) = None"
    by (simp add: ProcessHandshakeRequest_def defs)
  have e1: "Write ?E ?c (Some [1]) = ((1, None), ?c1)" using r1 by (metis prod.collapse)
  have e2: "SetTerminalSize ?E ?c 24 80 = (None, ?c2)" using r2 by (metis prod.collapse)
  have e3: "TerminateSession ?E ?c = (None, ?c3)" using r3 by (metis prod.collapse)
  have e4: "DisconnectPort ?E ?c = (None, ?c4)" using r4 by (metis prod.collapse)
  have e5: "SendAcknowledgeMessage ?E ?c ?m = (None, ?c5)" using r5 by (metis prod.collapse)
  have e6: "ProcessHandshakeRequest ?E ?c ?m = (None, ?c6)" using r6 by (metis prod.collapse)
  note t = sequence_number_by_operation [OF s, of ?E "Some [1]" 1 ?c1 24 80 ?c2 ?c3 ?c4 ?m ?c5 ?c6]
  have c1: "seqNum ?c1 = seqNum ?c + 1 \<and> map SequenceNumber (sent_between ?c ?c1) = [seqNum ?c + 1]"
    using t e1 by blast
  have c2: "seqNum ?c2 = seqNum ?c + 1 \<and> map SequenceNumber (sent_between ?c ?c2) = [seqNum ?c + 1]"
    using t e2 by blast
  have c3: "seqNum ?c3 = seqNum ?c + 1 \<and> map SequenceNumber (sent_between ?c ?c3) = [seqNum ?c + 1]"
    using t e3 by blast
  have c4: "seqNum ?c4 = seqNum ?c + 1 \<and> map SequenceNumber (sent_between ?c ?c4) = [seqNum ?c + 1]"
    using t e4 by blast
  have c5: "seqNum ?c5 = seqNum ?c \<and> map SequenceNumber (sent_between ?c ?c5) = [SequenceNumber ?m]"
    using t e5 by blast
  have c6: "seqNum ?c6 = seqNum ?c \<and> map SequenceNumber (sent_between ?c ?c6) = [SequenceNumber ?m]"
    using t e6 by blast
  show ?thesis
    using s q m r1 r2 r3 r4 r5 r6 c1 c2 c3 c4 c5 c6 by simp
qed

section \<open>The receive dispatch loop\<close>

lemma readMsg_frame:
  assumes "incoming (ws c) = Inr (Encoded m) # rest"
  shows "readMsg E c =
           (case SendAcknowledgeMessage E (received c rest) m of
              (Some err, c2) \<Rightarrow> Return ((None, Some err), c2)
            | (None, c2) \<Rightarrow> readMsg_switch E c2 m)"
  using assms by (simp add: readMsg_def ReadMessage_def UnmarshalBinary_def received_def)

lemma readMsg_data_frame:
  assumes "readMsg E c = Return ((Some d, err), c')"
  obtains m rest c2 where "incoming (ws c) = Inr (Encoded m) # rest"
    and "SendAcknowledgeMessage E (received c rest) m = (None, c2)"
    and "readMsg_switch E c2 m = Return ((Some d, err), c')"
  using assms
  by (auto simp: readMsg_def ReadMessage_def UnmarshalBinary_def received_def Let_def
      split: list.splits sum.splits prod.splits option.splits frame.splits)

lemma readMsg_switch_data:
  assumes "readMsg_switch E c2 m = Return ((Some d, err), c')"
  shows "c' = c2 \<and>
         (MessageType m = OutputStreamData \<and> PayloadType m = Output \<and> Payload m = Some d \<and>
            err = None \<or>
          MessageType m = ChannelClosed \<and> json_Unmarshal_ChannelClosed E (Payload m) = Inr d \<and>
            err = Some EOF)"
  using assms
  by (auto simp: readMsg_switch_def
      split: MessageType.splits PayloadType.splits prod.splits option.splits
        handshake_chan.splits sum.splits if_splits)

lemma SendAcknowledgeMessage_ok:
  assumes "SendAcknowledgeMessage E c m = (None, c2)"
  shows "\<exists>ack p. outgoing (ws c2) = outgoing (ws c) @ [ack] \<and>
           MessageType ack = Acknowledge \<and> PayloadType ack = Undefined \<and>
           SequenceNumber ack = (if synSent c then SequenceNumber m else 0) \<and>
           Payload ack = Some p \<and> json_Marshal_Acknowledge E (acknowledgment m) = Inr p"
  using assms
  by (auto simp: SendAcknowledgeMessage_def acknowledgment_def new_message_def Let_def on_wire_def
      split: sum.splits prod.splits dest!: WriteMsg_ok(1))

lemmas read_defs = readMsg_def readMsg_switch_def ReadMessage_def UnmarshalBinary_def
  SendAcknowledgeMessage_def ProcessHandshakeRequest_def receiving_def received_def
  acknowledgment_def example_inbound_def example_ChannelClosed_def
  example_HandshakeComplete_def example_Size_def example_InputStreamData_def

text \<open>
  C2. Whenever \<^verbatim>\<open>readMsg\<close> returns payload bytes to its caller, the bytes come
  from the frame it read (the payload of an output frame, or the output of a closing
  notice), and the channel it returns has handed exactly one more envelope to the
  transport: the acknowledgment of that frame. The acknowledgment is therefore with the
  transport before the caller sees the bytes.
\<close>

theorem readMsg_acknowledges_before_payload:
  assumes "incoming (ws c) = Inr (Encoded m) # rest"
    and "readMsg E c = Return ((Some d, err), c')"
  shows "(\<exists>ack p. outgoing (ws c') = outgoing (ws c) @ [ack] \<and>
            MessageType ack = Acknowledge \<and> PayloadType ack = Undefined \<and>
            Payload ack = Some p \<and> json_Marshal_Acknowledge E (acknowledgment m) = Inr p) \<and>
         (MessageType m = OutputStreamData \<and> PayloadType m = Output \<and> Payload m = Some d \<and>
            err = None \<or>
          MessageType m = ChannelClosed \<and> json_Unmarshal_ChannelClosed E (Payload m) = Inr d \<and>
            err = Some EOF)"
proof -
  obtain m' rest' c2 where fr: "incoming (ws c) = Inr (Encoded m') # rest'"
    and ack: "SendAcknowledgeMessage E (received c rest') m' = (None, c2)"
    and sw: "readMsg_switch E c2 m' = Return ((Some d, err), c')"
    using assms(2) by (rule readMsg_data_frame)
  have same: "m' = m" "rest' = rest" using fr assms(1) by simp_all
  have c': "c' = c2" using readMsg_switch_data [OF sw] by simp
  have out: "outgoing (ws (received c rest)) = outgoing (ws c)" by (simp add: received_def)
  show ?thesis
    using SendAcknowledgeMessage_ok [OF ack] readMsg_switch_data [OF sw] same c' out
    by auto
qed

theorem readMsg_acknowledges_before_payload_witness:
  "incoming (ws (receiving [example_inbound])) = [Inr (Encoded example_inbound)] \<and>
   outgoing (ws (receiving [example_inbound])) = [] \<and>
   Payload example_inbound = Some [104, 105] \<and>
   map_outcome fst (readMsg example_env (receiving [example_inbound]))
     = Return (Some [104, 105], None) \<and>
   map MessageType (outgoing (ws (snd (returned (readMsg example_env (receiving [example_inbound]))))))
     = [Acknowledge]"
proof -
  let ?c = "receiving [example_inbound]"
  let ?r = "readMsg example_env ?c"
  let ?c' = "snd (returned ?r)"
  have fr: "incoming (ws ?c) = Inr (Encoded example_inbound) # []"
    by (simp add: receiving_def opened_def example_conn_def)
  have out: "outgoing (ws ?c) = []"
    by (simp add: receiving_def opened_def example_conn_def)
  have pl: "Payload example_inbound = Some [104, 105]" by (simp add: example_inbound_def)
  have res: "map_outcome fst ?r = Return (Some [104, 105], None)"
    by (simp add: read_defs model_defs)
  then have r: "?r = Return ((Some [104, 105], None), ?c')"
    by (cases ?r) auto
  from readMsg_acknowledges_before_payload [OF fr r]
  obtain ack where "outgoing (ws ?c') = outgoing (ws ?c) @ [ack]" "MessageType ack = Acknowledge"
    by blast
  then have "map MessageType (outgoing (ws ?c')) = [Acknowledge]" using out by simp
  then show ?thesis using fr out pl res by simp
qed

text \<open>
  C6, as the code has it. For an inbound \<^verbatim>\<open>ChannelClosed\<close> frame whose decoded
  payload carries non-empty output: when the acknowledgment of the frame is sent without
  error, \<^verbatim>\<open>readMsg\<close> returns exactly that output together with
  \<^verbatim>\<open>io.EOF\<close> in the same return, and the frame is off the transport, so that the
  bytes are delivered once. When sending the acknowledgment fails, \<^verbatim>\<open>readMsg\<close>
  returns that error and no bytes: it returns before the payload is decoded.
\<close>

theorem readMsg_ChannelClosed_output:
  assumes "incoming (ws c) = Inr (Encoded m) # rest"
    and "MessageType m = ChannelClosed"
    and "json_Unmarshal_ChannelClosed E (Payload m) = Inr output"
    and "output \<noteq> []"
  shows "(\<forall>c2. SendAcknowledgeMessage E (received c rest) m = (None, c2) \<longrightarrow>
            readMsg E c = Return ((Some output, Some EOF), c2) \<and> incoming (ws c2) = rest) \<and>
         (\<forall>e c2. SendAcknowledgeMessage E (received c rest) m = (Some e, c2) \<longrightarrow>
            readMsg E c = Return ((None, Some e), c2))"
proof (intro conjI allI impI)
  fix c2
  assume ack: "SendAcknowledgeMessage E (received c rest) m = (None, c2)"
  have "readMsg E c = readMsg_switch E c2 m"
    using readMsg_frame [OF assms(1), of E] ack by simp
  also have "\<dots> = Return ((Some output, Some EOF), c2)"
    using assms(2-4) by (simp add: readMsg_switch_def)
  finally show "readMsg E c = Return ((Some output, Some EOF), c2)" .
  have "incoming (ws c2) = incoming (ws (received c rest))"
    using ack by (rule SendAcknowledgeMessage_incoming)
  then show "incoming (ws c2) = rest" by (simp add: received_def)
next
  fix e c2
  assume "SendAcknowledgeMessage E (received c rest) m = (Some e, c2)"
  then show "readMsg E c = Return ((None, Some e), c2)"
    using readMsg_frame [OF assms(1), of E] by simp
qed

theorem readMsg_ChannelClosed_output_witness:
  "incoming (ws (receiving [example_ChannelClosed])) = [Inr (Encoded example_ChannelClosed)] \<and>
   incoming (ws example_broken_pipe) = [Inr (Encoded example_ChannelClosed)] \<and>
   MessageType example_ChannelClosed = ChannelClosed \<and>
   json_Unmarshal_ChannelClosed example_env (Payload example_ChannelClosed) = Inr [98, 121, 101] \<and>
   fst (SendAcknowledgeMessage example_env (received (receiving [example_ChannelClosed]) [])
          example_ChannelClosed) = None \<and>
   map_outcome fst (readMsg example_env (receiving [example_ChannelClosed]))
     = Return (Some [98, 121, 101], Some EOF) \<and>
   incoming (ws (snd (returned (readMsg example_env (receiving [example_ChannelClosed]))))) = [] \<and>
   fst (SendAcknowledgeMessage example_env (received example_broken_pipe [])
          example_ChannelClosed) = Some (Err ''broken pipe'') \<and>
   map_outcome fst (readMsg example_env example_broken_pipe)
     = Return (None, Some (Err ''broken pipe''))"
proof -
  let ?c = "receiving [example_ChannelClosed]" and ?d = example_broken_pipe
  let ?a = "SendAcknowledgeMessage example_env (received ?c []) example_ChannelClosed"
  let ?b = "SendAcknowledgeMessage example_env (received ?d []) example_ChannelClosed"
  have fr: "incoming (ws ?c) = Inr (Encoded example_ChannelClosed) # []"
    by (simp add: receiving_def opened_def example_conn_def)
  have fd: "incoming (ws ?d) = Inr (Encoded example_ChannelClosed) # []"
    by (simp add: example_broken_pipe_def opened_def)
  have ty: "MessageType example_ChannelClosed = ChannelClosed"
    by (simp add: example_ChannelClosed_def)
  have js: "json_Unmarshal_ChannelClosed example_env (Payload example_ChannelClosed)
      = Inr [98, 121, 101]"
    by (simp add: example_env_def example_ChannelClosed_def)
  have ne: "[98, 121, 101 :: byte] \<noteq> []" by simp
  have a1: "fst ?a = None" by (simp add: read_defs model_defs)
  then have ack: "?a = (None, snd ?a)" by (metis prod.collapse)
  have b1: "fst ?b = Some (Err ''broken pipe'')"
    by (simp add: example_broken_pipe_def read_defs model_defs)
  then have bck: "?b = (Some (Err ''broken pipe''), snd ?b)" by (metis prod.collapse)
  have good: "readMsg example_env ?c = Return ((Some [98, 121, 101], Some EOF), snd ?a)"
    and gone: "incoming (ws (snd ?a)) = []"
    using readMsg_ChannelClosed_output [OF fr ty js ne] ack by blast+
  have bad: "readMsg example_env ?d = Return ((None, Some (Err ''broken pipe'')), snd ?b)"
    using readMsg_ChannelClosed_output [OF fd ty js ne] bck by blast
  show ?thesis using fr fd ty js a1 b1 gone by (simp add: good bad)
qed

text \<open>
  C6 as the spec states it has the trailing output delivered for every such frame. On a
  transport whose next write fails, the closing notice with output \<^verbatim>\<open>bye\<close> is
  answered with the write error, and its output is not returned.
\<close>

theorem ChannelClosed_output_lost_counterexample:
  "incoming (ws example_broken_pipe) = [Inr (Encoded example_ChannelClosed)] \<and>
   MessageType example_ChannelClosed = ChannelClosed \<and>
   json_Unmarshal_ChannelClosed example_env (Payload example_ChannelClosed)
     = Inr [98, 121, 101] \<and>
   map_outcome fst (readMsg example_env example_broken_pipe)
     = Return (None, Some (Err ''broken pipe'')) \<and>
   map_outcome fst (readMsg example_env example_broken_pipe)
     \<noteq> Return (Some [98, 121, 101], Some EOF)"
  by (simp add: example_broken_pipe_def read_defs model_defs)

text \<open>
  C8. For an inbound \<^verbatim>\<open>OutputStreamData\<close> frame whose payload type is not
  \<open>Output\<close>, \<open>HandshakeRequest\<close> or \<open>HandshakeComplete\<close>, and for an inbound frame
  whose message type is not \<open>Acknowledge\<close>, \<open>OutputStreamData\<close> or
  \<open>ChannelClosed\<close>, \<^verbatim>\<open>readMsg\<close> returns an error and no bytes: the error of the
  acknowledgment if that failed, the unknown-payload or unknown-message-type error
  otherwise.
\<close>

theorem readMsg_unknown_is_terminal:
  assumes "incoming (ws c) = Inr (Encoded m) # rest"
    and "MessageType m = OutputStreamData \<and>
           PayloadType m \<notin> {Output, HandshakeRequest, HandshakeComplete} \<or>
         MessageType m \<notin> {Acknowledge, OutputStreamData, ChannelClosed}"
  shows "(\<exists>e c'. readMsg E c = Return ((None, Some e), c')) \<and>
         (\<forall>c2. SendAcknowledgeMessage E (received c rest) m = (None, c2) \<longrightarrow>
            readMsg E c =
              Return ((None, Some (if MessageType m = OutputStreamData
                                   then UnknownIncomingMsgPayload m
                                   else UnknownMessageType m)), c2))"
proof -
  have sw: "readMsg_switch E c2 m =
      Return ((None, Some (if MessageType m = OutputStreamData
                           then UnknownIncomingMsgPayload m
                           else UnknownMessageType m)), c2)" for c2
    using assms(2)
    by (auto simp: readMsg_switch_def split: MessageType.splits PayloadType.splits)
  obtain r c2 where ack: "SendAcknowledgeMessage E (received c rest) m = (r, c2)"
    by (cases "SendAcknowledgeMessage E (received c rest) m")
  show ?thesis
    using readMsg_frame [OF assms(1), of E] ack sw
    by (cases r) auto
qed

theorem readMsg_unknown_is_terminal_witness:
  "incoming (ws (receiving [example_Size])) = [Inr (Encoded example_Size)] \<and>
   MessageType example_Size = OutputStreamData \<and> PayloadType example_Size = Size \<and>
   fst (SendAcknowledgeMessage example_env (received (receiving [example_Size]) [])
          example_Size) = None \<and>
   map_outcome fst (readMsg example_env (receiving [example_Size]))
     = Return (None, Some (UnknownIncomingMsgPayload example_Size)) \<and>
   incoming (ws (receiving [example_InputStreamData])) = [Inr (Encoded example_InputStreamData)] \<and>
   MessageType example_InputStreamData = InputStreamData \<and>
   fst (SendAcknowledgeMessage example_env (received (receiving [example_InputStreamData]) [])
          example_InputStreamData) = None \<and>
   map_outcome fst (readMsg example_env (receiving [example_InputStreamData]))
     = Return (None, Some (UnknownMessageType example_InputStreamData))"
proof -
  let ?c = "receiving [example_Size]" and ?d = "receiving [example_InputStreamData]"
  let ?a = "SendAcknowledgeMessage example_env (received ?c []) example_Size"
  let ?b = "SendAcknowledgeMessage example_env (received ?d []) example_InputStreamData"
  have fc: "incoming (ws ?c) = Inr (Encoded example_Size) # []"
    and fd: "incoming (ws ?d) = Inr (Encoded example_InputStreamData) # []"
    by (simp_all add: receiving_def opened_def example_conn_def)
  have tc: "MessageType example_Size = OutputStreamData" "PayloadType example_Size = Size"
    and td: "MessageType example_InputStreamData = InputStreamData"
    by (simp_all add: example_Size_def example_InputStreamData_def)
  have hc: "MessageType example_Size = OutputStreamData \<and>
        PayloadType example_Size \<notin> {Output, HandshakeRequest, HandshakeComplete} \<or>
      MessageType example_Size \<notin> {Acknowledge, OutputStreamData, ChannelClosed}"
    using tc by simp
  have hd: "MessageType example_InputStreamData = OutputStreamData \<and>
        PayloadType example_InputStreamData \<notin> {Output, HandshakeRequest, HandshakeComplete} \<or>
      MessageType example_InputStreamData \<notin> {Acknowledge, OutputStreamData, ChannelClosed}"
    using td by simp
  have a1: "fst ?a = None" and b1: "fst ?b = None" by (simp_all add: read_defs model_defs)
  have ack: "?a = (None, snd ?a)" using a1 by (metis prod.collapse)
  have bck: "?b = (None, snd ?b)" using b1 by (metis prod.collapse)
  have rc: "readMsg example_env ?c =
      Return ((None, Some (UnknownIncomingMsgPayload example_Size)), snd ?a)"
    using readMsg_unknown_is_terminal [OF fc hc, of example_env] ack tc by auto
  have rd: "readMsg example_env ?d =
      Return ((None, Some (UnknownMessageType example_InputStreamData)), snd ?b)"
    using readMsg_unknown_is_terminal [OF fd hd, of example_env] bck td by auto
  show ?thesis using fc fd tc td a1 b1 by (simp add: rc rd)
qed

subsection \<open>The handshake signal\<close>

text \<open>What \<^verbatim>\<open>readMsg\<close> does with an acknowledged \<open>HandshakeComplete\<close> frame, by
  the state of the signal: the check for nil lets a closed channel through to
  \<^verbatim>\<open>close\<close>.\<close>

lemma readMsg_HandshakeComplete_closed:
  assumes "incoming (ws c) = Inr (Encoded m) # rest"
    and "MessageType m = OutputStreamData" and "PayloadType m = HandshakeComplete"
    and "SendAcknowledgeMessage E (received c rest) m = (None, c2)"
  shows "readMsg E c =
           (case handshakeCh c of
              ChanNil \<Rightarrow> Return ((None, None), c2)
            | ChanOpen \<Rightarrow> Return ((None, None), c2\<lparr>handshakeCh := ChanClosed\<rparr>)
            | ChanClosed \<Rightarrow> Panic ''close of closed channel'')"
proof -
  have "handshakeCh c2 = handshakeCh (received c rest)"
    using assms(4)
    by (auto simp: SendAcknowledgeMessage_def new_message_def Let_def
        split: sum.splits prod.splits dest!: WriteMsg_ok(5))
  then have h: "handshakeCh c2 = handshakeCh c" by (simp add: received_def)
  have "readMsg E c = readMsg_switch E c2 m"
    using readMsg_frame [OF assms(1), of E] assms(4) by simp
  then show ?thesis using assms(2,3) h by (simp add: readMsg_switch_def)
qed

text \<open>
  C7. The spec has a second \<open>HandshakeComplete\<close> frame processed without a panic.
  On an opened channel that receives two such frames, the first \<^verbatim>\<open>readMsg\<close>
  returns no bytes and no error and leaves the signal closed; the second one panics, and
  so does \<^verbatim>\<open>WriteTo\<close> on that channel.
\<close>

theorem second_HandshakeComplete_panics:
  "map_outcome fst (readMsg example_env
      (receiving [example_HandshakeComplete, example_HandshakeComplete]))
     = Return (None, None) \<and>
   handshakeCh (snd (returned (readMsg example_env
      (receiving [example_HandshakeComplete, example_HandshakeComplete]))))
     = ChanClosed \<and>
   readMsg example_env (snd (returned (readMsg example_env
      (receiving [example_HandshakeComplete, example_HandshakeComplete]))))
     = Panic ''close of closed channel'' \<and>
   WriteTo example_env (receiving [example_HandshakeComplete, example_HandshakeComplete]) []
     = Panic ''close of closed channel''"
  by (simp add: WriteTo_def WriteTo_loop.simps read_defs model_defs)

subsection \<open>The bulk read\<close>

text \<open>\<^verbatim>\<open>WriteTo\<close> leaves its loop only with the error of \<^verbatim>\<open>readMsg\<close>,
  and returns that error as it is: it never returns nil.\<close>

lemma WriteTo_loop_returns_error:
  "WriteTo_loop E c w n = Return ((k, err), w', c') \<Longrightarrow> err \<noteq> None"
proof (induction E c w n rule: WriteTo_loop.induct)
  case (1 E c w n)
  show ?case
  proof (cases "readMsg E c")
    case (Panic p)
    then show ?thesis using "1.prems" by (simp add: WriteTo_loop.simps [of E c])
  next
    case (Return x)
    obtain data e c1 where x: "x = ((data, e), c1)" by (cases x) auto
    show ?thesis
    proof (cases e)
      case None
      then show ?thesis
        using "1.prems" Return x "1.IH" [of x "(data, e)" c1 data e]
        by (auto simp: WriteTo_loop.simps [of E c] split: option.splits prod.splits)
    next
      case (Some e')
      then show ?thesis
        using "1.prems" Return x
        by (auto simp: WriteTo_loop.simps [of E c] split: option.splits prod.splits)
    qed
  qed
qed

text \<open>
  C9. The spec has \<^verbatim>\<open>WriteTo\<close> turn a clean end of the stream into a nil error.
  On a channel that receives an output frame and then a closing notice with trailing
  output, \<^verbatim>\<open>WriteTo\<close> writes both to the sink, counts five bytes, and returns
  \<^verbatim>\<open>io.EOF\<close>.
\<close>

theorem WriteTo_returns_EOF:
  "map_outcome (\<lambda>r. (fst r, fst (snd r)))
     (WriteTo example_env (receiving [example_inbound, example_ChannelClosed]) [])
     = Return ((5, Some EOF), [104, 105, 98, 121, 101])"
  by (simp add: WriteTo_def WriteTo_loop.simps read_defs model_defs)

text \<open>\<^verbatim>\<open>ReadFrom\<close>, the adapter for the other direction, returns nil when its
  reader ends with \<^verbatim>\<open>io.EOF\<close>.\<close>

lemma ReadFrom_converts_EOF:
  "fst (ReadFrom example_env (opened (example_conn [])) [([1, 2], None), ([], Some EOF)])
     = (2, None)"
  by (simp add: ReadFrom_def model_defs)

subsection \<open>The single read\<close>

text \<open>
  C10. \<^verbatim>\<open>Read\<close> never writes to the buffer it is given: whenever it returns, the
  buffer is as it was, and the results are the length of the payload that
  \<^verbatim>\<open>readMsg\<close> returned and the error of \<^verbatim>\<open>readMsg\<close>; the payload bytes
  themselves are in no result.
\<close>

theorem Read_leaves_buffer:
  assumes "Read E c buf = Return ((n, err), buf', c')"
  shows "buf' = buf \<and> (\<exists>data. readMsg E c = Return ((data, err), c') \<and> n = len data)"
  using assms by (auto simp: Read_def split: outcome.splits prod.splits)

theorem Read_leaves_buffer_witness:
  "Payload example_inbound = Some [104, 105] \<and>
   map_outcome (\<lambda>r. (fst r, fst (snd r)))
     (Read example_env (receiving [example_inbound]) [0, 0, 0, 0])
     = Return ((2, None), [0, 0, 0, 0])"
proof -
  let ?r = "Read example_env (receiving [example_inbound]) [0, 0, 0, 0]"
  have pl: "Payload example_inbound = Some [104, 105]" by (simp add: example_inbound_def)
  have res: "map_outcome fst ?r = Return (2, None)"
    by (simp add: Read_def read_defs model_defs)
  then have r: "?r = Return ((2, None), fst (snd (returned ?r)), snd (snd (returned ?r)))"
    by (cases ?r) auto
  have "fst (snd (returned ?r)) = [0, 0, 0, 0]"
    using Read_leaves_buffer [OF r] by simp
  then have "?r = Return ((2, None), [0, 0, 0, 0], snd (snd (returned ?r)))"
    using r by simp
  then have "map_outcome (\<lambda>r. (fst r, fst (snd r))) ?r = Return ((2, None), [0, 0, 0, 0])"
    by (cases ?r) auto
  then show ?thesis using pl by simp
qed

end
